theory Spec2Isabelle
  imports Complex_Main
begin

section \<open>Python values shared by the embedded modules\<close>

text \<open>
  Python floats are idealised as \<^typ>\<open>real\<close>; the one non-number that the embedded
  code can produce from numbers, the \<open>nan\<close> returned by \<open>numpy.std\<close> on an empty
  sequence, is written \<open>None\<close> in a \<^typ>\<open>real option\<close>. Strings are \<^typ>\<open>string\<close>:
  a character is a code point below 256, and text with other code points is not
  represented. Every exception the embedded code can raise is a constructor of
  \<open>py_error\<close>, and a function that may raise returns \<open>py_error + 'a\<close>.
\<close>

datatype py_error =
    FileNotFoundError
  | KeyError string
  | RuntimeError
  | ValueError
  | OverflowError
  | ZeroDivisionError
  | AttributeError
  | TypeError
  | UnpicklingError

text \<open>\<open>round(x, 0)\<close> on a float: to the nearest integer, ties to the even one.\<close>

definition py_round :: "real \<Rightarrow> real" where
  "py_round x =
     (let f = \<lfloor>x\<rfloor>; d = x - of_int f
      in if d < 1 / 2 then of_int f
         else if 1 / 2 < d then of_int (f + 1)
         else if even f then of_int f else of_int (f + 1))"

text \<open>\<open>round(x, 2)\<close>: the same rounding at the second decimal.\<close>

definition py_round2 :: "real \<Rightarrow> real" where
  "py_round2 x = py_round (x * 100) / 100"

text \<open>The slice \<open>xs[-n:]\<close> for a positive \<open>n\<close>: the last \<open>n\<close> items, all of them when
  there are fewer.\<close>

definition py_last :: "nat \<Rightarrow> 'a list \<Rightarrow> 'a list" where
  "py_last n xs = drop (length xs - n) xs"

text \<open>\<open>numpy.std\<close> with its default \<open>ddof = 0\<close>: the square root of the mean of the
  squared deviations from the mean (divisor \<open>n\<close>); \<open>nan\<close> on an empty sequence.\<close>

definition np_mean :: "real list \<Rightarrow> real" where
  "np_mean xs = sum_list xs / real (length xs)"

definition np_std :: "real list \<Rightarrow> real option" where
  "np_std xs =
     (if xs = [] then None
      else Some (sqrt (np_mean (map (\<lambda>x. \<bar>x - np_mean xs\<bar>\<^sup>2) xs))))"

section \<open>The prediction engine (app/ml/predictor.py)\<close>

subsection \<open>The objects of a model bundle\<close>

text \<open>
  The fitted scikit-learn objects are black boxes, given by what their methods return:
  \<open>LabelEncoder.transform\<close> on one label, \<open>StandardScaler.transform\<close> on one row
  (a cell is \<open>None\<close> where the data frame holds \<open>nan\<close>), and the regressor's
  \<open>predict\<close> and \<open>staged_predict\<close> on one scaled row. Each may raise.
\<close>

type_synonym encoder_obj = "string \<Rightarrow> py_error + real"
type_synonym scaler_obj = "real option list \<Rightarrow> py_error + real list"

record model_obj =
  predict_fn :: "real list \<Rightarrow> py_error + real"
  staged_predict_fn :: "real list \<Rightarrow> py_error + real list"

type_synonym stats_dict = "string \<rightharpoonup> real"

text \<open>
  The attributes of a \<open>PredictionEngine\<close> object. \<open>None\<close> in \<open>model\<close>, \<open>scaler\<close>
  and \<open>label_encoder\<close> is Python's \<open>None\<close>. An attribute that \<open>__init__\<close> has not
  assigned yet is shown with the value \<open>__init__\<close> will give it: the constructor call
  runs \<open>__init__\<close> right after \<open>__new__\<close>, so no path of the program reads one.
\<close>

record engine =
  initialized :: bool
  model :: "model_obj option"
  scaler :: "scaler_obj option"
  label_encoder :: "encoder_obj option"
  features :: "string list"
  location_classes :: "string list"
  location_stats :: "string \<rightharpoonup> stats_dict"
  model_metrics :: "string \<rightharpoonup> stats_dict"
  feature_importance :: "string \<rightharpoonup> real"

subsection \<open>is_loaded and predict\<close>

definition is_loaded :: "engine \<Rightarrow> bool" where
  "is_loaded self = (model self \<noteq> None)"

text \<open>The local variables of \<open>predict\<close> at the point where the result is assembled.\<close>

record predict_locals =
  v_predicted_price :: real
  v_staged_predictions :: "real list"
  v_last_n :: "real list"
  v_std_dev :: "real option"
  v_max_std :: real
  v_confidence_score :: real
  v_margin :: real
  v_price_low :: real
  v_price_high :: real
  v_price_per_sqft :: real

text \<open>
  Lines 131 to 182 of \<open>predict\<close>. The division \<open>std_dev / max_std\<close> of two Python floats
  raises when \<open>max_std\<close> is zero. When \<open>std_dev\<close> is \<open>nan\<close>, \<open>min(1.0, nan)\<close> is \<open>1.0\<close>.
  A method call on an attribute that is \<open>None\<close> raises \<open>AttributeError\<close>.
\<close>

definition predict_body ::
  "engine \<Rightarrow> string \<Rightarrow> real \<Rightarrow> int \<Rightarrow> int \<Rightarrow> int \<Rightarrow> int \<Rightarrow> real \<Rightarrow> int \<Rightarrow> int
     \<Rightarrow> py_error + predict_locals" where
  "predict_body self location area_sqft bhk bathrooms floor_no total_floors
       age_of_property parking lift =
     (if \<not> is_loaded self then Inl RuntimeError
      else if location \<notin> set (location_classes self) then Inl ValueError
      else case label_encoder self of None \<Rightarrow> Inl AttributeError | Some enc \<Rightarrow>
        (case enc location of Inl err \<Rightarrow> Inl err | Inr location_encoded \<Rightarrow>
          (let feature_values =
                 [(''location'', location_encoded),
                  (''area_sqft'', area_sqft),
                  (''bhk'', real_of_int bhk),
                  (''bathrooms'', real_of_int bathrooms),
                  (''floor'', real_of_int floor_no),
                  (''total_floors'', real_of_int total_floors),
                  (''age_of_property'', age_of_property),
                  (''parking'', real_of_int parking),
                  (''lift'', real_of_int lift)];
               input_df = map (map_of feature_values) (features self)
           in case scaler self of None \<Rightarrow> Inl AttributeError | Some sc \<Rightarrow>
             (case sc input_df of Inl err \<Rightarrow> Inl err | Inr input_scaled \<Rightarrow>
               (case model self of None \<Rightarrow> Inl AttributeError | Some m \<Rightarrow>
                 (case predict_fn m input_scaled of Inl err \<Rightarrow> Inl err
                  | Inr predicted_price \<Rightarrow>
                   (case staged_predict_fn m input_scaled of Inl err \<Rightarrow> Inl err
                    | Inr staged_predictions \<Rightarrow>
                     (let last_n = py_last 20 staged_predictions;
                          std_dev = np_std last_n;
                          max_std = predicted_price * 0.15
                      in if max_std = 0 then Inl ZeroDivisionError
                         else
                          (let confidence_score =
                                 (case std_dev of None \<Rightarrow> 1
                                  | Some s \<Rightarrow> max 0.5 (min 1.0 (1.0 - s / max_std)));
                               margin = 0.08 + (1 - confidence_score) * 0.04;
                               price_low = predicted_price * (1 - margin);
                               price_high = predicted_price * (1 + margin);
                               price_per_sqft =
                                 (if area_sqft > 0 then predicted_price / area_sqft else 0)
                           in Inr \<lparr>v_predicted_price = predicted_price,
                                   v_staged_predictions = staged_predictions,
                                   v_last_n = last_n,
                                   v_std_dev = std_dev,
                                   v_max_std = max_std,
                                   v_confidence_score = confidence_score,
                                   v_margin = margin,
                                   v_price_low = price_low,
                                   v_price_high = price_high,
                                   v_price_per_sqft = price_per_sqft\<rparr>)))))))))"

text \<open>The returned dictionary (lines 185 to 214).\<close>

record price_range_dict =
  low :: real
  high :: real

record location_context_dict =
  name :: string
  avg_price :: real
  median_price :: real
  avg_price_per_sqft :: real
  data_points :: real

record input_summary_dict =
  in_location :: string
  in_area_sqft :: real
  in_bhk :: int
  in_bathrooms :: int
  in_floor :: int
  in_total_floors :: int
  in_age_of_property :: real
  in_parking :: bool
  in_lift :: bool

record prediction_result =
  predicted_price :: real
  price_range :: price_range_dict
  price_per_sqft :: real
  confidence_score :: real
  location_context :: location_context_dict
  result_feature_importance :: "string \<rightharpoonup> real"
  input_summary :: input_summary_dict

definition dict_get :: "('k \<rightharpoonup> 'v) \<Rightarrow> 'k \<Rightarrow> 'v \<Rightarrow> 'v" where
  "dict_get d k dflt = (case d k of None \<Rightarrow> dflt | Some v \<Rightarrow> v)"

definition predict ::
  "engine \<Rightarrow> string \<Rightarrow> real \<Rightarrow> int \<Rightarrow> int \<Rightarrow> int \<Rightarrow> int \<Rightarrow> real \<Rightarrow> int \<Rightarrow> int
     \<Rightarrow> py_error + prediction_result" where
  "predict self location area_sqft bhk bathrooms floor_no total_floors
       age_of_property parking lift =
     (case predict_body self location area_sqft bhk bathrooms floor_no total_floors
             age_of_property parking lift of
        Inl err \<Rightarrow> Inl err
      | Inr v \<Rightarrow>
         (let loc_stats = dict_get (location_stats self) location Map.empty
          in Inr \<lparr>predicted_price = py_round (v_predicted_price v),
                  price_range = \<lparr>low = py_round (v_price_low v),
                                  high = py_round (v_price_high v)\<rparr>,
                  price_per_sqft = py_round (v_price_per_sqft v),
                  confidence_score = py_round2 (v_confidence_score v),
                  location_context =
                    \<lparr>name = location,
                     avg_price = dict_get loc_stats ''mean_price'' 0,
                     median_price = dict_get loc_stats ''median_price'' 0,
                     avg_price_per_sqft = dict_get loc_stats ''avg_price_per_sqft'' 0,
                     data_points = dict_get loc_stats ''count'' 0\<rparr>,
                  result_feature_importance = feature_importance self,
                  input_summary =
                    \<lparr>in_location = location,
                     in_area_sqft = area_sqft,
                     in_bhk = bhk,
                     in_bathrooms = bathrooms,
                     in_floor = floor_no,
                     in_total_floors = total_floors,
                     in_age_of_property = age_of_property,
                     in_parking = (parking \<noteq> 0),
                     in_lift = (lift \<noteq> 0)\<rparr>\<rparr>))"

text \<open>The engine as \<open>__init__\<close> leaves it (lines 43 to 51).\<close>

definition init_engine :: engine where
  "init_engine =
     \<lparr>initialized = True, model = None, scaler = None, label_encoder = None,
      features = [], location_classes = [], location_stats = Map.empty,
      model_metrics = Map.empty, feature_importance = Map.empty\<rparr>"

subsection \<open>load_model\<close>

text \<open>
  The dictionary that \<open>joblib.load\<close> returns, read through the nine keys that
  \<open>load_model\<close> looks up: \<open>None\<close> in a field says that the key is absent, and a
  present key holds a value of the kind \<open>train_model\<close> stores under it. Keys that
  \<open>load_model\<close> never reads (\<open>target\<close>, \<open>preprocessing_stats\<close>) are left out.
\<close>

record model_bundle =
  b_model :: "model_obj option"
  b_scaler :: "scaler_obj option"
  b_label_encoder :: "encoder_obj option"
  b_features :: "string list option"
  b_location_classes :: "string list option"
  b_location_stats :: "(string \<rightharpoonup> stats_dict) option"
  b_train_metrics :: "stats_dict option"
  b_test_metrics :: "stats_dict option"
  b_feature_importance :: "(string \<rightharpoonup> real) option"

text \<open>A file is either something \<open>joblib.load\<close> cannot read or a pickled bundle; a
  path that the file system does not map does not exist.\<close>

datatype artifact = Corrupt | Pickled model_bundle

type_synonym filesystem = "string \<rightharpoonup> artifact"

text \<open>\<open>bundle.get(key, {})\<close>.\<close>

definition get_or_empty :: "('k \<rightharpoonup> 'v) option \<Rightarrow> ('k \<rightharpoonup> 'v)" where
  "get_or_empty entry = (case entry of None \<Rightarrow> Map.empty | Some d \<Rightarrow> d)"

text \<open>
  Lines 64 to 86. The attributes are assigned one by one, in the order of the source, so
  the engine that is returned beside an error holds every assignment made before the raise.
  \<open>settings_model_path\<close> is \<open>get_settings().model_path\<close>.
\<close>

definition load_model ::
  "filesystem \<Rightarrow> string \<Rightarrow> string option \<Rightarrow> engine \<Rightarrow> (py_error + unit) \<times> engine" where
  "load_model fs settings_model_path model_path_arg self =
     (let model_path = (case model_path_arg of None \<Rightarrow> settings_model_path | Some p \<Rightarrow> p)
      in case fs model_path of
           None \<Rightarrow> (Inl FileNotFoundError, self)
         | Some Corrupt \<Rightarrow> (Inl UnpicklingError, self)
         | Some (Pickled b) \<Rightarrow>
            (case b_model b of None \<Rightarrow> (Inl (KeyError ''model''), self) | Some m \<Rightarrow>
              (let self1 = self\<lparr>model := Some m\<rparr>
               in case b_scaler b of None \<Rightarrow> (Inl (KeyError ''scaler''), self1) | Some sc \<Rightarrow>
                 (let self2 = self1\<lparr>scaler := Some sc\<rparr>
                  in case b_label_encoder b of
                       None \<Rightarrow> (Inl (KeyError ''label_encoder''), self2)
                     | Some enc \<Rightarrow>
                    (let self3 = self2\<lparr>label_encoder := Some enc\<rparr>
                     in case b_features b of
                          None \<Rightarrow> (Inl (KeyError ''features''), self3)
                        | Some fts \<Rightarrow>
                       (let self4 = self3\<lparr>features := fts\<rparr>
                        in case b_location_classes b of
                             None \<Rightarrow> (Inl (KeyError ''location_classes''), self4)
                           | Some cls \<Rightarrow>
                              (Inr (),
                               self4\<lparr>location_classes := cls,
                                      location_stats := get_or_empty (b_location_stats b),
                                      model_metrics :=
                                        [''train'' \<mapsto> get_or_empty (b_train_metrics b),
                                         ''test'' \<mapsto> get_or_empty (b_test_metrics b)],
                                      feature_importance :=
                                        get_or_empty (b_feature_importance b)\<rparr>)))))))"

subsection \<open>The singleton: __new__, __init__ and the constructor call\<close>

text \<open>
  Objects live in a heap, addressed by their position; the class attribute
  \<open>_instance\<close> holds \<open>None\<close> or the address of the one engine.
\<close>

record process =
  instance_ref :: "nat option"
  heap :: "engine list"

definition PredictionEngine_new :: "process \<Rightarrow> nat \<times> process" where
  "PredictionEngine_new st =
     (case instance_ref st of
        None \<Rightarrow>
          (let a = length (heap st)
           in (a, st\<lparr>instance_ref := Some a,
                     heap := heap st @ [init_engine\<lparr>initialized := False\<rparr>]\<rparr>))
      | Some a \<Rightarrow> (a, st))"

definition PredictionEngine_init :: "nat \<Rightarrow> process \<Rightarrow> process" where
  "PredictionEngine_init a st =
     (if a < length (heap st) then
        (if initialized (heap st ! a) then st
         else st\<lparr>heap := (heap st)
                  [a := (heap st ! a)\<lparr>initialized := True, model := None, scaler := None,
                          label_encoder := None, features := [], location_classes := [],
                          location_stats := Map.empty, model_metrics := Map.empty,
                          feature_importance := Map.empty\<rparr>]\<rparr>)
      else st)"

text \<open>The call \<open>PredictionEngine()\<close>: \<open>__new__\<close>, then \<open>__init__\<close> on what it returned.\<close>

definition PredictionEngine :: "process \<Rightarrow> nat \<times> process" where
  "PredictionEngine st =
     (case PredictionEngine_new st of (a, st1) \<Rightarrow> (a, PredictionEngine_init a st1))"

text \<open>The method call \<open>obj.load_model(path)\<close> on the object at an address.\<close>

definition call_load_model ::
  "filesystem \<Rightarrow> string \<Rightarrow> string option \<Rightarrow> nat \<Rightarrow> process \<Rightarrow> (py_error + unit) \<times> process" where
  "call_load_model fs settings_model_path model_path_arg a st =
     (case load_model fs settings_model_path model_path_arg (heap st ! a) of
        (outcome, self') \<Rightarrow> (outcome, st\<lparr>heap := (heap st)[a := self']\<rparr>))"

text \<open>The process before the module is imported: no instance, nothing allocated.\<close>

definition fresh_process :: process where
  "fresh_process = \<lparr>instance_ref = None, heap = []\<rparr>"

subsection \<open>The specification's vocabulary\<close>

text \<open>\<open>clamp(x, lo, hi)\<close>, and the two standard deviations of a sequence: the population
  one (divisor \<open>n\<close>) and the sample one (divisor \<open>n - 1\<close>).\<close>

definition clamp :: "real \<Rightarrow> real \<Rightarrow> real \<Rightarrow> real" where
  "clamp x lo hi = (if x < lo then lo else if hi < x then hi else x)"

definition mean :: "real list \<Rightarrow> real" where
  "mean xs = sum_list xs / real (length xs)"

definition population_stddev :: "real list \<Rightarrow> real" where
  "population_stddev xs = sqrt (sum_list (map (\<lambda>x. (x - mean xs)\<^sup>2) xs) / real (length xs))"

definition sample_stddev :: "real list \<Rightarrow> real" where
  "sample_stddev xs =
     sqrt (sum_list (map (\<lambda>x. (x - mean xs)\<^sup>2) xs) / (real (length xs) - 1))"

subsection \<open>Example engines and bundles\<close>

text \<open>A regressor that returns the same point prediction and the same staged predictions
  for every row, and a loaded engine around it with the feature order of the trainer.\<close>

definition constant_model :: "real \<Rightarrow> real list \<Rightarrow> model_obj" where
  "constant_model p stages =
     \<lparr>predict_fn = (\<lambda>_. Inr p), staged_predict_fn = (\<lambda>_. Inr stages)\<rparr>"

definition zero_fill_scaler :: scaler_obj where
  "zero_fill_scaler row = Inr (map (\<lambda>c. case c of None \<Rightarrow> 0 | Some x \<Rightarrow> x) row)"

definition zero_encoder :: encoder_obj where
  "zero_encoder label = Inr 0"

definition trainer_features :: "string list" where
  "trainer_features =
     [''location'', ''area_sqft'', ''bhk'', ''bathrooms'', ''floor'',
      ''total_floors'', ''age_of_property'', ''parking'', ''lift'']"

definition example_engine :: "string list \<Rightarrow> real \<Rightarrow> real list \<Rightarrow> engine" where
  "example_engine classes p stages =
     \<lparr>initialized = True,
      model = Some (constant_model p stages),
      scaler = Some zero_fill_scaler,
      label_encoder = Some zero_encoder,
      features = trainer_features,
      location_classes = classes,
      location_stats = Map.empty,
      model_metrics = Map.empty,
      feature_importance = Map.empty\<rparr>"

text \<open>A bundle with the five keys that are read by subscript and none of the other four,
  and a bundle that holds the model only.\<close>

definition five_key_bundle :: model_bundle where
  "five_key_bundle =
     \<lparr>b_model = Some (constant_model 100 [100]),
      b_scaler = Some zero_fill_scaler,
      b_label_encoder = Some zero_encoder,
      b_features = Some trainer_features,
      b_location_classes = Some [''Kharghar''],
      b_location_stats = None,
      b_train_metrics = None,
      b_test_metrics = None,
      b_feature_importance = None\<rparr>"

definition model_only_bundle :: model_bundle where
  "model_only_bundle =
     \<lparr>b_model = Some (constant_model 100 [100]),
      b_scaler = None,
      b_label_encoder = None,
      b_features = None,
      b_location_classes = None,
      b_location_stats = None,
      b_train_metrics = None,
      b_test_metrics = None,
      b_feature_importance = None\<rparr>"

section \<open>The field cleaners (app/ml/preprocessing.py)\<close>

subsection \<open>Strings and floats\<close>

text \<open>
  The characters below 256 that \<open>str.strip\<close>, \<open>float\<close> and the regular expression
  class \<open>\s\<close> treat as white space: tab, line feed, vertical tab, form feed, carriage
  return, the four separators \<open>0x1C\<close> to \<open>0x1F\<close>, the space, the next-line control
  \<open>0x85\<close> and the no-break space \<open>0xA0\<close>.
\<close>

definition is_space :: "char \<Rightarrow> bool" where
  "is_space c =
     (let n = (of_char c :: nat)
      in (9 \<le> n \<and> n \<le> 13) \<or> (28 \<le> n \<and> n \<le> 32) \<or> n = 133 \<or> n = 160)"

definition py_strip :: "string \<Rightarrow> string" where
  "py_strip s = rev (dropWhile is_space (rev (dropWhile is_space s)))"

text \<open>
  \<open>str.lower\<close> and \<open>str.upper\<close>: the 26 letters and the 30 accented letters
  \<open>0xC0\<close> to \<open>0xDE\<close> (without the multiplication sign \<open>0xD7\<close>) change case, and the
  upper case of the sharp s \<open>0xDF\<close> is \<open>SS\<close>. The upper-case forms of the micro sign
  \<open>0xB5\<close> and of \<open>0xFF\<close> are code points above 255: these two characters are left as
  they are by \<open>py_upper\<close>, whose only caller hands the text to \<open>float\<close>, which
  rejects either form.
\<close>

definition ascii_uppercase :: string where
  "ascii_uppercase = ''ABCDEFGHIJKLMNOPQRSTUVWXYZ''"

definition ascii_lowercase :: string where
  "ascii_lowercase = ''abcdefghijklmnopqrstuvwxyz''"

definition latin1_uppercase :: string where
  "latin1_uppercase =
     [CHR 0xC0, CHR 0xC1, CHR 0xC2, CHR 0xC3, CHR 0xC4, CHR 0xC5, CHR 0xC6, CHR
      0xC7, CHR 0xC8, CHR 0xC9, CHR 0xCA, CHR 0xCB, CHR 0xCC, CHR 0xCD, CHR 0xCE,
      CHR 0xCF, CHR 0xD0, CHR 0xD1, CHR 0xD2, CHR 0xD3, CHR 0xD4, CHR 0xD5, CHR
      0xD6, CHR 0xD8, CHR 0xD9, CHR 0xDA, CHR 0xDB, CHR 0xDC, CHR 0xDD, CHR 0xDE]"

definition latin1_lowercase :: string where
  "latin1_lowercase =
     [CHR 0xE0, CHR 0xE1, CHR 0xE2, CHR 0xE3, CHR 0xE4, CHR 0xE5, CHR 0xE6, CHR
      0xE7, CHR 0xE8, CHR 0xE9, CHR 0xEA, CHR 0xEB, CHR 0xEC, CHR 0xED, CHR 0xEE,
      CHR 0xEF, CHR 0xF0, CHR 0xF1, CHR 0xF2, CHR 0xF3, CHR 0xF4, CHR 0xF5, CHR
      0xF6, CHR 0xF8, CHR 0xF9, CHR 0xFA, CHR 0xFB, CHR 0xFC, CHR 0xFD, CHR 0xFE]"

definition lower_char :: "char \<Rightarrow> char" where
  "lower_char c =
     (case map_of (zip (ascii_uppercase @ latin1_uppercase)
                       (ascii_lowercase @ latin1_lowercase)) c of
        None \<Rightarrow> c
      | Some d \<Rightarrow> d)"

definition upper_char :: "char \<Rightarrow> char" where
  "upper_char c =
     (case map_of (zip (ascii_lowercase @ latin1_lowercase)
                       (ascii_uppercase @ latin1_uppercase)) c of
        None \<Rightarrow> c
      | Some d \<Rightarrow> d)"

definition py_lower :: "string \<Rightarrow> string" where
  "py_lower s = map lower_char s"

definition py_upper :: "string \<Rightarrow> string" where
  "py_upper s = concat (map (\<lambda>c. if c = CHR 0xDF then ''SS'' else [upper_char c]) s)"

text \<open>\<open>s.replace(old, new)\<close>: the occurrences of \<open>old\<close> are replaced from left to
  right without overlap; an empty \<open>old\<close> matches before every character and at the end.\<close>

function replace_nonempty :: "string \<Rightarrow> string \<Rightarrow> string \<Rightarrow> string" where
  "replace_nonempty old new [] = []"
| "replace_nonempty old new (c # cs) =
     (if old \<noteq> [] \<and> take (length old) (c # cs) = old
      then new @ replace_nonempty old new (drop (length old) (c # cs))
      else c # replace_nonempty old new cs)"
  by pat_completeness auto
termination
  by (relation "measure (\<lambda>(old, new, s). length s)") auto

definition py_replace :: "string \<Rightarrow> string \<Rightarrow> string \<Rightarrow> string" where
  "py_replace old new s =
     (if old = [] then new @ concat (map (\<lambda>c. c # new) s) else replace_nonempty old new s)"

text \<open>
  A Python float: a real number, an infinity or \<open>nan\<close>. \<open>float(s)\<close> follows the grammar
  of the language reference: optional sign, then \<open>inf\<close>, \<open>infinity\<close> or \<open>nan\<close> in any
  case, or a decimal number with an optional fraction and exponent, where single
  underscores may separate digits. White space around the text is ignored. A decimal at or
  beyond \<open>2^1024 - 2^970\<close> in magnitude rounds to an infinity; the rounding of the other
  decimals to the nearest double is not modelled.
\<close>

datatype py_float = Finite real | PosInf | NegInf | NaN

definition is_digit :: "char \<Rightarrow> bool" where
  "is_digit c = (let n = (of_char c :: nat) in 48 \<le> n \<and> n \<le> 57)"

definition digit_val :: "char \<Rightarrow> nat" where
  "digit_val c = of_char c - 48"

fun parse_digits :: "bool \<Rightarrow> string \<Rightarrow> nat list option" where
  "parse_digits prev_digit [] = (if prev_digit then Some [] else None)"
| "parse_digits prev_digit (c # cs) =
     (if is_digit c then map_option (Cons (digit_val c)) (parse_digits True cs)
      else if c = CHR ''_'' \<and> prev_digit then parse_digits False cs
      else None)"

definition digitpart :: "string \<Rightarrow> nat list option" where
  "digitpart s = parse_digits False s"

definition digits_value :: "nat list \<Rightarrow> nat" where
  "digits_value ds = foldl (\<lambda>acc d. 10 * acc + d) 0 ds"

definition split_sign :: "string \<Rightarrow> bool \<times> string" where
  "split_sign s =
     (case s of
        [] \<Rightarrow> (False, [])
      | c # cs \<Rightarrow> if c = CHR ''-'' then (True, cs) else if c = CHR ''+'' then (False, cs)
                  else (False, s))"

text \<open>The mantissa \<open>[digitpart] "." digitpart | digitpart ["."]\<close>, as a real.\<close>

definition parse_mantissa :: "string \<Rightarrow> real option" where
  "parse_mantissa m =
     (let ip = takeWhile (\<lambda>c. c \<noteq> CHR ''.'') m;
          rest = dropWhile (\<lambda>c. c \<noteq> CHR ''.'') m
      in if rest = [] then map_option (\<lambda>ds. real (digits_value ds)) (digitpart ip)
         else
          (let fp = tl rest
           in if ip = [] then
                map_option (\<lambda>fs. real (digits_value fs) / 10 ^ length fs) (digitpart fp)
              else
                (case digitpart ip of
                   None \<Rightarrow> None
                 | Some ds \<Rightarrow>
                    if fp = [] then Some (real (digits_value ds))
                    else map_option
                           (\<lambda>fs. real (digits_value ds) + real (digits_value fs) / 10 ^ length fs)
                           (digitpart fp))))"

text \<open>The exponent \<open>("e" | "E") [sign] digitpart\<close>, after the letter, as an integer.\<close>

definition parse_exponent :: "string \<Rightarrow> int option" where
  "parse_exponent e =
     (case split_sign e of
        (neg, ds) \<Rightarrow>
          map_option (\<lambda>ds. if neg then - int (digits_value ds) else int (digits_value ds))
            (digitpart ds))"

definition is_exp_letter :: "char \<Rightarrow> bool" where
  "is_exp_letter c = (c = CHR ''e'' \<or> c = CHR ''E'')"

definition parse_floatnumber :: "string \<Rightarrow> real option" where
  "parse_floatnumber s =
     (let m = takeWhile (\<lambda>c. \<not> is_exp_letter c) s;
          rest = dropWhile (\<lambda>c. \<not> is_exp_letter c) s
      in case parse_mantissa m of
           None \<Rightarrow> None
         | Some mv \<Rightarrow>
            if rest = [] then Some mv
            else (case parse_exponent (tl rest) of
                    None \<Rightarrow> None
                  | Some ex \<Rightarrow>
                     Some (if 0 \<le> ex then mv * 10 ^ nat ex else mv / 10 ^ nat (- ex))))"

definition float_overflow :: real where
  "float_overflow = 2 ^ 1024 - 2 ^ 970"

definition py_float :: "string \<Rightarrow> py_error + py_float" where
  "py_float text =
     (case split_sign (py_strip text) of
        (neg, body) \<Rightarrow>
          if py_lower body = ''inf'' \<or> py_lower body = ''infinity''
            then Inr (if neg then NegInf else PosInf)
          else if py_lower body = ''nan'' then Inr NaN
          else (case parse_floatnumber body of
                  None \<Rightarrow> Inl ValueError
                | Some v \<Rightarrow>
                   if float_overflow \<le> v then Inr (if neg then NegInf else PosInf)
                   else Inr (Finite (if neg then - v else v))))"

text \<open>\<open>int(x)\<close> on a float truncates towards zero, and raises on an infinity
  (\<open>OverflowError\<close>) and on \<open>nan\<close> (\<open>ValueError\<close>).\<close>

definition py_int :: "py_float \<Rightarrow> py_error + int" where
  "py_int x =
     (case x of
        Finite r \<Rightarrow> Inr (if 0 \<le> r then \<lfloor>r\<rfloor> else \<lceil>r\<rceil>)
      | PosInf \<Rightarrow> Inl OverflowError
      | NegInf \<Rightarrow> Inl OverflowError
      | NaN \<Rightarrow> Inl ValueError)"

subsection \<open>The cleaners\<close>

text \<open>
  A raw cell as the cleaners see it: each of them looks at \<open>pd.isna(val)\<close> and, when that
  is false, at \<open>str(val)\<close> only. \<open>Missing\<close> is a value on which \<open>pd.isna\<close> holds
  (\<open>None\<close>, \<open>nan\<close>), and \<open>Text s\<close> a scalar on which it does not, with \<open>str(val) = s\<close>.
\<close>

datatype raw_value = Missing | Text string

text \<open>\<open>try: ... except ValueError: return None\<close> around a computation.\<close>

definition except_ValueError :: "py_error + 'a option \<Rightarrow> py_error + 'a option" where
  "except_ValueError body = (case body of Inl ValueError \<Rightarrow> Inr None | outcome \<Rightarrow> outcome)"

definition LOCATION_ALIASES :: "string \<rightharpoonup> string" where
  "LOCATION_ALIASES =
     map_of
       [(''airoli'', ''Airoli''),
        (''belapur'', ''Belapur''),
        (''cbd belapur'', ''CBD Belapur''),
        (''ghansoli'', ''Ghansoli''),
        (''kharghar'', ''Kharghar''),
        (''kopar khairane'', ''Kopar Khairane''),
        (''nerul'', ''Nerul''),
        (''panvel'', ''Panvel''),
        (''sanpada'', ''Sanpada''),
        (''ulwe'', ''Ulwe''),
        (''vashi'', ''Vashi''),
        (''juinagar'', ''Juinagar''),
        (''rabale'', ''Rabale''),
        (''taloja'', ''Taloja'')]"

definition normalize_location :: "raw_value \<Rightarrow> py_error + string option" where
  "normalize_location location =
     (case location of
        Missing \<Rightarrow> Inr None
      | Text s \<Rightarrow>
         if py_strip s = [] then Inr None
         else (let cleaned = py_lower (py_strip s) in Inr (LOCATION_ALIASES cleaned)))"

text \<open>In \<open>clean_price\<close> the character class of the regular expression is the comma, the
  letters \<open>I\<close>, \<open>N\<close>, \<open>R\<close> and white space; its rupee sign is a code point above
  255 and so never occurs in the modelled strings.\<close>

definition clean_price :: "raw_value \<Rightarrow> py_error + py_float option" where
  "clean_price price_val =
     (case price_val of
        Missing \<Rightarrow> Inr None
      | Text s \<Rightarrow>
         (let price_str = py_strip s;
              price_str = filter (\<lambda>c. c \<notin> set '',INR'' \<and> \<not> is_space c) price_str
          in except_ValueError
               (case py_float price_str of
                  Inl err \<Rightarrow> Inl err
                | Inr price \<Rightarrow>
                   (case price of
                      Finite r \<Rightarrow> if r \<le> 0 then Inr None else Inr (Some price)
                    | PosInf \<Rightarrow> Inr (Some price)
                    | NegInf \<Rightarrow> Inr None
                    | NaN \<Rightarrow> Inr (Some price)))))"

definition clean_bhk :: "raw_value \<Rightarrow> py_error + int option" where
  "clean_bhk bhk_val =
     (case bhk_val of
        Missing \<Rightarrow> Inr None
      | Text s \<Rightarrow>
         (let bhk_str = py_upper (py_strip s);
              bhk_str = py_strip (py_replace ''BHK'' '''' bhk_str)
          in except_ValueError
               (case py_float bhk_str of
                  Inl err \<Rightarrow> Inl err
                | Inr x \<Rightarrow>
                   (case py_int x of
                      Inl err \<Rightarrow> Inl err
                    | Inr bhk \<Rightarrow> if 1 \<le> bhk \<and> bhk \<le> 6 then Inr (Some bhk) else Inr None))))"

definition clean_floor :: "raw_value \<Rightarrow> py_error + int option" where
  "clean_floor floor_val =
     (case floor_val of
        Missing \<Rightarrow> Inr None
      | Text s \<Rightarrow>
         (let floor_str = py_lower (py_strip s)
          in if floor_str = ''ground'' then Inr (Some 0)
             else except_ValueError
               (case py_float floor_str of
                  Inl err \<Rightarrow> Inl err
                | Inr x \<Rightarrow>
                   (case py_int x of
                      Inl err \<Rightarrow> Inl err
                    | Inr fl \<Rightarrow> if 0 \<le> fl \<and> fl \<le> 100 then Inr (Some fl) else Inr None))))"

definition clean_yes_no :: "raw_value \<Rightarrow> py_error + int option" where
  "clean_yes_no val =
     (case val of
        Missing \<Rightarrow> Inr None
      | Text s \<Rightarrow>
         (let cleaned = py_lower (py_strip s)
          in if cleaned \<in> set [''yes'', ''y'', ''1'', ''true''] then Inr (Some 1)
             else if cleaned \<in> set [''no'', ''n'', ''0'', ''false''] then Inr (Some 0)
             else Inr None))"

section \<open>The price-per-square-foot filter of preprocess_dataset\<close>

text \<open>
  A data frame: its column names in order, and its rows, each a dictionary from column
  name to cell. A cell is a float or a string (the location). The row index is not
  modelled, so \<open>reset_index\<close> changes nothing.
\<close>

datatype cell = Num py_float | Label string

type_synonym row = "string \<rightharpoonup> cell"

record dataframe =
  columns :: "string list"
  rows :: "row list"

text \<open>The division of two floats as numpy computes it inside a column operation: a
  division by zero gives an infinity, or \<open>nan\<close> for \<open>0 / 0\<close>, and does not raise.\<close>

definition np_divide :: "py_float \<Rightarrow> py_float \<Rightarrow> py_float" where
  "np_divide x y =
     (case (x, y) of
        (NaN, _) \<Rightarrow> NaN
      | (_, NaN) \<Rightarrow> NaN
      | (Finite a, Finite b) \<Rightarrow>
          if b \<noteq> 0 then Finite (a / b)
          else if 0 < a then PosInf else if a < 0 then NegInf else NaN
      | (Finite a, _) \<Rightarrow> Finite 0
      | (PosInf, Finite b) \<Rightarrow> if 0 \<le> b then PosInf else NegInf
      | (NegInf, Finite b) \<Rightarrow> if 0 \<le> b then NegInf else PosInf
      | (_, _) \<Rightarrow> NaN)"

definition float_gt :: "py_float \<Rightarrow> real \<Rightarrow> bool" where
  "float_gt x bound =
     (case x of Finite a \<Rightarrow> bound < a | PosInf \<Rightarrow> True | NegInf \<Rightarrow> False | NaN \<Rightarrow> False)"

definition float_lt :: "py_float \<Rightarrow> real \<Rightarrow> bool" where
  "float_lt x bound =
     (case x of Finite a \<Rightarrow> a < bound | PosInf \<Rightarrow> False | NegInf \<Rightarrow> True | NaN \<Rightarrow> False)"

text \<open>\<open>df[col] = df[a] / df[b]\<close>: a missing column raises \<open>KeyError\<close>, a string cell
  \<open>TypeError\<close>; the new column is appended, or overwrites a column of that name.\<close>

definition divide_cells :: "cell option \<Rightarrow> cell option \<Rightarrow> py_error + cell" where
  "divide_cells x y =
     (case (x, y) of
        (Some (Num a), Some (Num b)) \<Rightarrow> Inr (Num (np_divide a b))
      | (_, _) \<Rightarrow> Inl TypeError)"

fun assign_quotient :: "string \<Rightarrow> string \<Rightarrow> string \<Rightarrow> row list \<Rightarrow> py_error + row list" where
  "assign_quotient col a b [] = Inr []"
| "assign_quotient col a b (r # rs) =
     (case divide_cells (r a) (r b) of
        Inl err \<Rightarrow> Inl err
      | Inr q \<Rightarrow>
         (case assign_quotient col a b rs of
            Inl err \<Rightarrow> Inl err
          | Inr rs' \<Rightarrow> Inr (r(col \<mapsto> q) # rs')))"

definition cell_gt :: "real \<Rightarrow> row \<Rightarrow> bool" where
  "cell_gt bound r =
     (case r ''price_per_sqft'' of Some (Num x) \<Rightarrow> float_gt x bound | _ \<Rightarrow> False)"

definition cell_lt :: "real \<Rightarrow> row \<Rightarrow> bool" where
  "cell_lt bound r =
     (case r ''price_per_sqft'' of Some (Num x) \<Rightarrow> float_lt x bound | _ \<Rightarrow> False)"

text \<open>Lines 251 to 262 of \<open>preprocess_dataset\<close>, on the data frame that the earlier steps
  have produced.\<close>

definition price_per_sqft_filter :: "dataframe \<Rightarrow> py_error + dataframe" where
  "price_per_sqft_filter df =
     (if ''actual_price'' \<notin> set (columns df) then Inl (KeyError ''actual_price'')
      else if ''area_sqft'' \<notin> set (columns df) then Inl (KeyError ''area_sqft'')
      else
       (case assign_quotient ''price_per_sqft'' ''actual_price'' ''area_sqft'' (rows df) of
          Inl err \<Rightarrow> Inl err
        | Inr rs \<Rightarrow>
           (let df1 = \<lparr>columns = (if ''price_per_sqft'' \<in> set (columns df) then columns df
                                     else columns df @ [''price_per_sqft'']),
                        rows = rs\<rparr>;
                df2 = df1\<lparr>rows := filter (cell_gt 2000) (rows df1)\<rparr>;
                df3 = df2\<lparr>rows := filter (cell_lt 50000) (rows df2)\<rparr>;
                df4 = \<lparr>columns = filter (\<lambda>c. c \<noteq> ''price_per_sqft'') (columns df3),
                        rows = map (\<lambda>r. r(''price_per_sqft'' := None)) (rows df3)\<rparr>
            in Inr df4)))"

text \<open>
  The derived value of a row whose price and area cells are floats, and what it is to lie
  strictly between two bounds: infinities and \<open>nan\<close> do not. For a row with a finite
  price and a finite non-zero area the derived value is the quotient of the two reals; the
  rounding of the quotient to a double is not modelled.
\<close>

definition numeric_row :: "row \<Rightarrow> bool" where
  "numeric_row r =
     (case (r ''actual_price'', r ''area_sqft'') of
        (Some (Num p), Some (Num a)) \<Rightarrow> True
      | (_, _) \<Rightarrow> False)"

definition derived_value :: "row \<Rightarrow> py_float" where
  "derived_value r =
     (case (r ''actual_price'', r ''area_sqft'') of
        (Some (Num p), Some (Num a)) \<Rightarrow> np_divide p a
      | (_, _) \<Rightarrow> NaN)"

definition strictly_between :: "real \<Rightarrow> real \<Rightarrow> py_float \<Rightarrow> bool" where
  "strictly_between lo hi x = (case x of Finite v \<Rightarrow> lo < v \<and> v < hi | _ \<Rightarrow> False)"

definition price_per_unit_area :: "row \<Rightarrow> real" where
  "price_per_unit_area r =
     (case (r ''actual_price'', r ''area_sqft'') of
        (Some (Num (Finite p)), Some (Num (Finite a))) \<Rightarrow> p / a
      | (_, _) \<Rightarrow> 0)"

definition finite_row :: "row \<Rightarrow> bool" where
  "finite_row r =
     (case (r ''actual_price'', r ''area_sqft'') of
        (Some (Num (Finite p)), Some (Num (Finite a))) \<Rightarrow> a \<noteq> 0
      | (_, _) \<Rightarrow> False)"

text \<open>A small table: rows with the values 2000, 7500 and 50000, a row with an infinite
  price and a row with the area zero.\<close>

definition listing :: "string \<Rightarrow> real \<Rightarrow> real \<Rightarrow> row" where
  "listing loc price area =
     [''location'' \<mapsto> Label loc, ''area_sqft'' \<mapsto> Num (Finite area),
      ''actual_price'' \<mapsto> Num (Finite price)]"

definition mixed_table :: dataframe where
  "mixed_table =
     \<lparr>columns = [''location'', ''area_sqft'', ''actual_price''],
      rows = [listing ''Vashi'' 2000000 1000,
              listing ''Nerul'' 7500000 1000,
              listing ''Panvel'' 50000000 1000,
              [''location'' \<mapsto> Label ''Ulwe'', ''area_sqft'' \<mapsto> Num (Finite 1000),
               ''actual_price'' \<mapsto> Num PosInf],
              listing ''Airoli'' 7500000 0]\<rparr>"

section \<open>Auxiliary facts\<close>

subsection \<open>Rounding\<close>

lemma py_round_upper: "py_round x \<le> x + 1 / 2"
  unfolding py_round_def Let_def by (auto; linarith)

lemma py_round_lower: "x - 1 / 2 \<le> py_round x"
  unfolding py_round_def Let_def by (auto; linarith)

lemma py_round_ge_int: "of_int n \<le> x \<Longrightarrow> of_int n \<le> py_round x"
proof -
  assume "of_int n \<le> x"
  then have "n \<le> \<lfloor>x\<rfloor>" by (simp add: le_floor_iff)
  then have "(of_int n :: real) \<le> of_int \<lfloor>x\<rfloor>" by simp
  then show ?thesis unfolding py_round_def Let_def by auto
qed

lemma py_round_le_int: "x \<le> of_int n \<Longrightarrow> py_round x \<le> of_int n"
proof (cases "x = of_int n")
  case True
  then show ?thesis by (simp add: py_round_def Let_def)
next
  case False
  assume "x \<le> of_int n"
  with False have "x < of_int n" by simp
  then have "\<lfloor>x\<rfloor> < n" by (simp add: floor_less_iff)
  then have "\<lfloor>x\<rfloor> + 1 \<le> n" by simp
  then have "(of_int (\<lfloor>x\<rfloor> + 1) :: real) \<le> of_int n" using of_int_le_iff by blast
  moreover have "(of_int \<lfloor>x\<rfloor> :: real) \<le> of_int (\<lfloor>x\<rfloor> + 1)" by simp
  ultimately show ?thesis unfolding py_round_def Let_def by auto
qed

lemma np_std_population:
  "xs \<noteq> [] \<Longrightarrow> np_std xs = Some (population_stddev xs)"
  by (simp add: np_std_def population_stddev_def np_mean_def mean_def)

subsection \<open>What a returning run of predict has computed\<close>

lemma predict_body_locals:
  assumes "predict_body self location area_sqft bhk bathrooms floor_no total_floors
             age_of_property parking lift = Inr v"
  shows "is_loaded self"
    and "location \<in> set (location_classes self)"
    and "v_last_n v = py_last 20 (v_staged_predictions v)"
    and "v_std_dev v = np_std (v_last_n v)"
    and "v_max_std v = v_predicted_price v * 0.15"
    and "v_max_std v \<noteq> 0"
    and "v_confidence_score v =
           (case v_std_dev v of None \<Rightarrow> 1
            | Some s \<Rightarrow> max 0.5 (min 1.0 (1.0 - s / v_max_std v)))"
    and "v_margin v = 0.08 + (1 - v_confidence_score v) * 0.04"
    and "v_price_low v = v_predicted_price v * (1 - v_margin v)"
    and "v_price_high v = v_predicted_price v * (1 + v_margin v)"
    and "v_price_per_sqft v = (if area_sqft > 0 then v_predicted_price v / area_sqft else 0)"
  using assms unfolding predict_body_def Let_def
  by (auto split: if_split_asm option.split_asm sum.split_asm)

lemma predict_body_model:
  assumes "predict_body self location area_sqft bhk bathrooms floor_no total_floors
             age_of_property parking lift = Inr v"
  shows "\<exists>m x. model self = Some m \<and> predict_fn m x = Inr (v_predicted_price v) \<and>
               staged_predict_fn m x = Inr (v_staged_predictions v)"
  using assms unfolding predict_body_def Let_def
  by (auto split: if_split_asm option.split_asm sum.split_asm)

lemma py_round2_range:
  assumes "1 / 2 \<le> c" and "c \<le> 1"
  shows "1 / 2 \<le> py_round2 c \<and> py_round2 c \<le> 1"
proof -
  have "of_int 50 \<le> c * 100" using assms by simp
  then have "of_int 50 \<le> py_round (c * 100)" by (rule py_round_ge_int)
  moreover have "c * 100 \<le> of_int 100" using assms by simp
  then have "py_round (c * 100) \<le> of_int 100" by (rule py_round_le_int)
  ultimately show ?thesis by (simp add: py_round2_def)
qed

lemmas example_defs = example_engine_def constant_model_def zero_fill_scaler_def
  zero_encoder_def trainer_features_def is_loaded_def

lemma example_body:
  "predict_body (example_engine [''Kharghar''] 100 [98, 102]) ''Kharghar'' 1000 2 2 5 20 5 1 1 =
     Inr \<lparr>v_predicted_price = 100, v_staged_predictions = [98, 102],
           v_last_n = [98, 102], v_std_dev = Some 2, v_max_std = 15,
           v_confidence_score = 13 / 15, v_margin = 32 / 375,
           v_price_low = 1372 / 15, v_price_high = 1628 / 15,
           v_price_per_sqft = 1 / 10\<rparr>"
  by (simp add: predict_body_def example_defs py_last_def np_std_def np_mean_def Let_def)

lemma margin_range:
  assumes "predict_body self location area_sqft bhk bathrooms floor_no total_floors
             age_of_property parking lift = Inr v"
  shows "2 / 25 \<le> v_margin v"
  using predict_body_locals(7,8) [OF assms]
  by (auto split: option.splits simp: max_def min_def)

subsection \<open>Construction and loading\<close>

lemma constructed_stable:
  assumes "instance_ref st = Some a" and "a < length (heap st)" and "initialized (heap st ! a)"
  shows "PredictionEngine st = (a, st)"
  using assms
  by (simp add: PredictionEngine_def PredictionEngine_new_def PredictionEngine_init_def)

lemma constructed_initialized:
  assumes "PredictionEngine st = (a, st1)"
    and "\<forall>b. instance_ref st = Some b \<longrightarrow> b < length (heap st)"
  shows "instance_ref st1 = Some a \<and> a < length (heap st1) \<and> initialized (heap st1 ! a)"
  using assms
  by (auto simp add: PredictionEngine_def PredictionEngine_new_def PredictionEngine_init_def
        Let_def nth_append init_engine_def split: option.splits if_splits)

lemma load_model_initialized:
  "initialized (snd (load_model fs d p self)) = initialized self"
  unfolding load_model_def Let_def
  by (auto split: option.splits artifact.splits)

lemma load_model_success:
  "fst (load_model fs d p self) = Inr () \<Longrightarrow> is_loaded (snd (load_model fs d p self))"
  unfolding load_model_def Let_def is_loaded_def
  by (auto split: option.splits artifact.splits)

subsection \<open>Strings, aliases and floats\<close>

lemmas str_defs = py_strip_def py_lower_def py_upper_def lower_char_def upper_char_def
  ascii_uppercase_def ascii_lowercase_def latin1_uppercase_def latin1_lowercase_def
  is_space_def py_replace_def

lemmas float_defs = py_float_def split_sign_def parse_floatnumber_def parse_mantissa_def
  parse_exponent_def digitpart_def digits_value_def is_digit_def digit_val_def is_exp_letter_def
  py_int_def float_overflow_def

lemma lower_char_space: "is_space (lower_char c) = is_space c"
  by (simp add: lower_char_def ascii_uppercase_def ascii_lowercase_def
        latin1_uppercase_def latin1_lowercase_def is_space_def)

lemma alias_keys:
  assumes "LOCATION_ALIASES a = Some c"
  shows "a \<noteq> [] \<and> \<not> is_space (hd a) \<and> \<not> is_space (last a)"
proof -
  have "(a, c) \<in> set
       [(''airoli'', ''Airoli''),
        (''belapur'', ''Belapur''),
        (''cbd belapur'', ''CBD Belapur''),
        (''ghansoli'', ''Ghansoli''),
        (''kharghar'', ''Kharghar''),
        (''kopar khairane'', ''Kopar Khairane''),
        (''nerul'', ''Nerul''),
        (''panvel'', ''Panvel''),
        (''sanpada'', ''Sanpada''),
        (''ulwe'', ''Ulwe''),
        (''vashi'', ''Vashi''),
        (''juinagar'', ''Juinagar''),
        (''rabale'', ''Rabale''),
        (''taloja'', ''Taloja'')]"
    using assms unfolding LOCATION_ALIASES_def by (rule map_of_SomeD)
  then show ?thesis
    by (auto simp add: is_space_def)
qed

lemma dropWhile_padded:
  assumes "list_all P pre" and "v \<noteq> []" and "\<not> P (hd v)"
  shows "dropWhile P (pre @ v @ rest) = v @ rest"
proof -
  have "dropWhile P (pre @ (v @ rest)) = dropWhile P (v @ rest)"
    using assms(1) by (simp add: list_all_iff)
  also have "\<dots> = v @ rest"
    using assms(2,3) by (cases v) simp_all
  finally show ?thesis by simp
qed

lemma strip_padded:
  assumes "v \<noteq> []" and "\<not> is_space (hd v)" and "\<not> is_space (last v)"
    and "list_all is_space pre" and "list_all is_space post"
  shows "py_strip (pre @ v @ post) = v"
proof -
  have front: "dropWhile is_space (pre @ v @ post) = v @ post"
    by (rule dropWhile_padded [OF assms(4) assms(1) assms(2)])
  have "rev (v @ post) = rev post @ rev v @ []" by simp
  moreover have "dropWhile is_space (rev post @ rev v @ []) = rev v @ []"
  proof (rule dropWhile_padded)
    show "list_all is_space (rev post)" using assms(5) by (simp add: list_all_iff)
    show "rev v \<noteq> []" using assms(1) by simp
    show "\<not> is_space (hd (rev v))" using assms(1,3) by (simp add: hd_rev)
  qed
  ultimately have "rev (dropWhile is_space (rev (v @ post))) = v" by simp
  then show ?thesis by (simp add: py_strip_def front)
qed

lemma lower_variant_ends:
  assumes "py_lower v = a" and "a \<noteq> []" and "\<not> is_space (hd a)" and "\<not> is_space (last a)"
  shows "v \<noteq> [] \<and> \<not> is_space (hd v) \<and> \<not> is_space (last v)"
proof -
  have ne: "v \<noteq> []" using assms(1,2) by (auto simp add: py_lower_def)
  have "hd a = lower_char (hd v)"
    using assms(1) ne by (auto simp add: py_lower_def hd_map)
  moreover have "last a = lower_char (last v)"
    using assms(1) ne by (auto simp add: py_lower_def last_map)
  ultimately show ?thesis
    using ne assms(3,4) by (simp add: lower_char_space)
qed

lemma py_float_outcomes: "py_float s = Inl ValueError \<or> (\<exists>x. py_float s = Inr x)"
  by (auto simp add: py_float_def split: prod.splits option.splits)

lemma total_cleaners:
  "\<exists>r. normalize_location x = Inr r"
  "\<exists>r. clean_yes_no x = Inr r"
  "\<exists>r. clean_price x = Inr r"
proof -
  show "\<exists>r. normalize_location x = Inr r"
    by (cases x) (simp_all add: normalize_location_def Let_def)
  show "\<exists>r. clean_yes_no x = Inr r"
    by (cases x) (simp_all add: clean_yes_no_def Let_def)
  show "\<exists>r. clean_price x = Inr r"
  proof (cases x)
    case Missing
    then show ?thesis by (simp add: clean_price_def)
  next
    case (Text s)
    show ?thesis
      using py_float_outcomes
        [of "filter (\<lambda>c. c \<notin> set '',INR'' \<and> \<not> is_space c) (py_strip s)"]
      unfolding Text clean_price_def Let_def except_ValueError_def
      by (auto split: py_float.splits)
  qed
qed

lemma clean_bhk_only_overflow: "clean_bhk x = Inl err \<Longrightarrow> err = OverflowError"
proof (cases x)
  case Missing
  then show "clean_bhk x = Inl err \<Longrightarrow> err = OverflowError" by (simp add: clean_bhk_def)
next
  case (Text s)
  assume a: "clean_bhk x = Inl err"
  show "err = OverflowError"
    using a py_float_outcomes [of "py_strip (py_replace ''BHK'' [] (py_upper (py_strip s)))"]
    unfolding Text clean_bhk_def Let_def except_ValueError_def py_int_def
    by (auto split: py_float.splits if_splits sum.splits py_error.splits)
qed

subsection \<open>Rows with float cells\<close>

lemma numeric_row_quotient:
  assumes "numeric_row r"
  shows "divide_cells (r ''actual_price'') (r ''area_sqft'') = Inr (Num (derived_value r))"
  using assms unfolding numeric_row_def derived_value_def divide_cells_def
  by (auto split: option.splits cell.splits)

lemma assign_quotient_numeric:
  "list_all numeric_row rs \<Longrightarrow>
     assign_quotient col ''actual_price'' ''area_sqft'' rs
       = Inr (map (\<lambda>r. r(col \<mapsto> Num (derived_value r))) rs)"
  by (induction rs) (simp_all add: numeric_row_quotient)

lemma filter_assigned_value:
  "filter (\<lambda>r. cell_gt lo r \<and> cell_lt hi r)
      (map (\<lambda>r. r(''price_per_sqft'' \<mapsto> Num (f r))) rs)
   = map (\<lambda>r. r(''price_per_sqft'' \<mapsto> Num (f r)))
       (filter (\<lambda>r. strictly_between lo hi (f r)) rs)"
  by (induction rs)
     (auto simp add: cell_gt_def cell_lt_def float_gt_def float_lt_def strictly_between_def
        split: py_float.splits)

lemma derived_value_finite:
  "finite_row r \<Longrightarrow> derived_value r = Finite (price_per_unit_area r)"
  unfolding finite_row_def derived_value_def price_per_unit_area_def np_divide_def
  by (auto split: option.splits cell.splits py_float.splits)

section \<open>Properties of predict\<close>

text \<open>
  C9. On an engine that is not loaded (no model published, as after \<open>__init__\<close>),
  \<open>predict\<close> raises \<open>RuntimeError\<close> for every request; the outcome does not depend on
  the scaler, the encoder or any other attribute, none of which is read.
\<close>

theorem predict_unloaded_not_ready:
  "\<not> is_loaded self \<Longrightarrow>
     predict self location area_sqft bhk bathrooms floor_no total_floors
       age_of_property parking lift = Inl RuntimeError"
  by (simp add: predict_def predict_body_def)

theorem predict_unloaded_not_ready_witness:
  "\<not> is_loaded init_engine \<and>
   predict init_engine ''Kharghar'' 1000 2 2 5 20 5 1 1 = Inl RuntimeError"
  using predict_unloaded_not_ready [of init_engine "''Kharghar''" 1000 2 2 5 20 5 1 1]
  by (simp add: is_loaded_def init_engine_def)

text \<open>
  C1 (amended). Whenever \<open>predict\<close> computes a prediction, the staged predictions and
  the point prediction are what the model returned for the scaled row, and the confidence
  score is \<open>clamp(1 - stddev / (point_prediction * 0.15), 0.5, 1.0)\<close>, where \<open>stddev\<close>
  is the population standard deviation (divisor \<open>n\<close>, as \<open>numpy.std\<close> computes it) of
  the last 20 staged predictions. The confidence score lies in \<open>[0.5, 1.0]\<close>, before and
  after the rounding to two decimals in the returned dictionary, and the margin
  \<open>0.08 + (1 - confidence) * 0.04\<close>, applied symmetrically around the point prediction,
  lies in \<open>[0.08, 0.12]\<close>.
\<close>

theorem confidence_and_margin:
  assumes "predict_body self location area_sqft bhk bathrooms floor_no total_floors
             age_of_property parking lift = Inr v"
  shows "(\<exists>m x. model self = Some m \<and> predict_fn m x = Inr (v_predicted_price v) \<and>
                staged_predict_fn m x = Inr (v_staged_predictions v))
       \<and> v_last_n v = py_last 20 (v_staged_predictions v)
       \<and> (v_last_n v \<noteq> [] \<longrightarrow>
            v_confidence_score v =
              clamp (1 - population_stddev (v_last_n v) / (v_predicted_price v * 0.15)) 0.5 1.0)
       \<and> 0.5 \<le> v_confidence_score v \<and> v_confidence_score v \<le> 1.0
       \<and> v_margin v = 0.08 + (1 - v_confidence_score v) * 0.04
       \<and> 0.08 \<le> v_margin v \<and> v_margin v \<le> 0.12
       \<and> v_price_low v = v_predicted_price v * (1 - v_margin v)
       \<and> v_price_high v = v_predicted_price v * (1 + v_margin v)
       \<and> (\<exists>r. predict self location area_sqft bhk bathrooms floor_no total_floors
                  age_of_property parking lift = Inr r
              \<and> confidence_score r = py_round2 (v_confidence_score v)
              \<and> 0.5 \<le> confidence_score r \<and> confidence_score r \<le> 1.0)"
proof -
  note L = predict_body_locals [OF assms]
  have conf: "v_confidence_score v =
           (case v_std_dev v of None \<Rightarrow> 1
            | Some s \<Rightarrow> max 0.5 (min 1.0 (1.0 - s / v_max_std v)))"
    by (rule L(7))
  have lo: "1 / 2 \<le> v_confidence_score v"
    unfolding conf by (auto split: option.split simp: max_def min_def)
  have hi: "v_confidence_score v \<le> 1"
    unfolding conf by (auto split: option.split simp: max_def min_def)
  have formula: "v_confidence_score v =
      clamp (1 - population_stddev (v_last_n v) / (v_predicted_price v * 0.15)) 0.5 1.0"
    if "v_last_n v \<noteq> []"
  proof -
    have "v_std_dev v = Some (population_stddev (v_last_n v))"
      using L(4) that by (simp add: np_std_population)
    then show ?thesis
      unfolding conf L(5) by (simp add: clamp_def max_def min_def)
  qed
  have margin: "v_margin v = 0.08 + (1 - v_confidence_score v) * 0.04"
    by (rule L(8))
  have mlo: "0.08 \<le> v_margin v" unfolding margin using hi by simp
  have mhi: "v_margin v \<le> 0.12" unfolding margin using lo by simp
  have res: "\<exists>r. predict self location area_sqft bhk bathrooms floor_no total_floors
                  age_of_property parking lift = Inr r
              \<and> confidence_score r = py_round2 (v_confidence_score v)
              \<and> 0.5 \<le> confidence_score r \<and> confidence_score r \<le> 1.0"
    using py_round2_range [OF lo hi] by (simp add: predict_def assms Let_def)
  show ?thesis
    using predict_body_model [OF assms] L(3) formula lo hi margin mlo mhi L(9) L(10) res
    by simp
qed

text \<open>The theorem at a loaded engine whose model predicts 100 with the staged
  predictions 98 and 102: the standard deviation is 2 and the confidence 13/15.\<close>

theorem confidence_and_margin_witness:
  "predict_body (example_engine [''Kharghar''] 100 [98, 102]) ''Kharghar'' 1000 2 2 5 20 5 1 1 =
     Inr \<lparr>v_predicted_price = 100, v_staged_predictions = [98, 102],
           v_last_n = [98, 102], v_std_dev = Some 2, v_max_std = 15,
           v_confidence_score = 13 / 15, v_margin = 32 / 375,
           v_price_low = 1372 / 15, v_price_high = 1628 / 15,
           v_price_per_sqft = 1 / 10\<rparr>
   \<and> v_confidence_score
     \<lparr>v_predicted_price = 100, v_staged_predictions = [98, 102],
      v_last_n = [98, 102], v_std_dev = Some 2, v_max_std = 15,
      v_confidence_score = 13 / 15, v_margin = 32 / 375,
      v_price_low = 1372 / 15, v_price_high = 1628 / 15,
      v_price_per_sqft = 1 / 10\<rparr> =
   clamp (1 - population_stddev [98, 102] / (100 * 0.15)) 0.5 1.0
   \<and> confidence_score (projr (predict (example_engine [''Kharghar''] 100 [98, 102])
          ''Kharghar'' 1000 2 2 5 20 5 1 1)) = 0.87"
  using confidence_and_margin [OF example_body] example_body
  by (auto simp add: py_round2_def py_round_def)

text \<open>
  C1 as stated fails: with the staged predictions 98 and 102 the sample standard deviation
  (divisor \<open>n - 1\<close>) is \<open>sqrt 8\<close>, and the confidence score that \<open>predict\<close> computes,
  13/15, is not the clamp of \<open>1 - sqrt 8 / 15\<close>.
\<close>

theorem sample_stddev_counterexample:
  "\<not> isl (predict_body (example_engine [''Kharghar''] 100 [98, 102])
            ''Kharghar'' 1000 2 2 5 20 5 1 1)
   \<and> v_staged_predictions (projr (predict_body (example_engine [''Kharghar''] 100 [98, 102])
            ''Kharghar'' 1000 2 2 5 20 5 1 1)) = [98, 102]
   \<and> v_predicted_price (projr (predict_body (example_engine [''Kharghar''] 100 [98, 102])
            ''Kharghar'' 1000 2 2 5 20 5 1 1)) = 100
   \<and> v_confidence_score (projr (predict_body (example_engine [''Kharghar''] 100 [98, 102])
            ''Kharghar'' 1000 2 2 5 20 5 1 1))
       \<noteq> clamp (1 - sample_stddev (py_last 20 [98, 102]) / (100 * 0.15)) 0.5 1.0"
proof -
  have s: "sample_stddev (py_last 20 [98, 102]) = sqrt 8"
    by (simp add: sample_stddev_def py_last_def mean_def)
  have ne: "sqrt 8 \<noteq> 2"
  proof
    assume "sqrt 8 = 2"
    then have "sqrt 8 = sqrt 4" by simp
    then have "(8::real) = 4" by (simp only: real_sqrt_eq_iff)
    then show False by simp
  qed
  have "clamp (1 - sqrt 8 / (100 * 0.15)) 0.5 1.0 \<noteq> 13 / 15"
    using ne by (auto simp add: clamp_def split: if_splits)
  then show ?thesis
    unfolding s by (simp add: example_body)
qed

text \<open>
  C6. On a loaded engine, a request whose location is not an element of
  \<open>location_classes\<close> (list membership, so an exact match) makes \<open>predict\<close> raise
  \<open>ValueError\<close>, whatever the encoder, the scaler and the model would do: none of them
  is called.
\<close>

theorem predict_unknown_location:
  "is_loaded self \<Longrightarrow> location \<notin> set (location_classes self) \<Longrightarrow>
     predict self location area_sqft bhk bathrooms floor_no total_floors
       age_of_property parking lift = Inl ValueError"
  by (simp add: predict_def predict_body_def)

theorem predict_unknown_location_witness:
  "is_loaded (example_engine [''Kharghar'', ''Vashi''] 100 [100])
   \<and> ''Nerul'' \<notin> set (location_classes (example_engine [''Kharghar'', ''Vashi''] 100 [100]))
   \<and> predict (example_engine [''Kharghar'', ''Vashi''] 100 [100])
        ''Nerul'' 1000 2 2 5 20 5 1 1 = Inl ValueError"
  using predict_unknown_location
    [of "example_engine [''Kharghar'', ''Vashi''] 100 [100]" "''Nerul''" 1000 2 2 5 20 5 1 1]
  by (simp add: example_defs)

text \<open>
  C5 (amended). On an engine that holds a model, a scaler and an encoder, knows the
  location Kharghar, and whose encoder, scaler and model return for the scenario's row, with
  a point prediction \<open>p\<close> above 12.5, \<open>predict\<close> returns a result with
  \<open>predicted_price = round(p)\<close>, \<open>price_range.low < predicted_price < price_range.high\<close>
  and \<open>price_per_sqft = round(p / 1000)\<close>, \<open>p\<close> being the unrounded point prediction.
\<close>

theorem kharghar_scenario:
  assumes "model self = Some m"
    and "scaler self = Some sc"
    and "label_encoder self = Some enc"
    and "''Kharghar'' \<in> set (location_classes self)"
    and "enc ''Kharghar'' = Inr code"
    and "sc (map (map_of [(''location'', code), (''area_sqft'', 1000), (''bhk'', 2),
                          (''bathrooms'', 2), (''floor'', 5), (''total_floors'', 20),
                          (''age_of_property'', 5), (''parking'', 1), (''lift'', 1)])
                 (features self)) = Inr x"
    and "predict_fn m x = Inr p"
    and "staged_predict_fn m x = Inr stages"
    and "12.5 < p"
  shows "\<exists>r. predict self ''Kharghar'' 1000 2 2 5 20 5 1 1 = Inr r
           \<and> predicted_price r = py_round p
           \<and> low (price_range r) < predicted_price r
           \<and> predicted_price r < high (price_range r)
           \<and> price_per_sqft r = py_round (p / 1000)"
proof -
  have "\<exists>v. predict_body self ''Kharghar'' 1000 2 2 5 20 5 1 1 = Inr v"
    using assms by (simp add: predict_body_def is_loaded_def Let_def)
  then obtain v where v: "predict_body self ''Kharghar'' 1000 2 2 5 20 5 1 1 = Inr v" ..
  have pv: "v_predicted_price v = p"
    using v assms by (auto simp add: predict_body_def is_loaded_def Let_def split: if_split_asm)
  note L = predict_body_locals [OF v]
  have m: "2 / 25 \<le> v_margin v" by (rule margin_range [OF v])
  have ppos: "0 < p" using assms(9) by simp
  have "p * (2 / 25) \<le> p * v_margin v"
    using m ppos by (simp only: mult_le_cancel_left_pos)
  moreover have "1 < p * (2 / 25)" using assms(9) by simp
  ultimately have pm: "1 < p * v_margin v" by linarith
  have lowraw: "v_price_low v = p - p * v_margin v"
    using L(9) pv by (simp add: algebra_simps)
  have highraw: "v_price_high v = p + p * v_margin v"
    using L(10) pv by (simp add: algebra_simps)
  have lo: "py_round (v_price_low v) < py_round p"
    using py_round_upper [of "v_price_low v"] py_round_lower [of p] lowraw pm by simp
  have hi: "py_round p < py_round (v_price_high v)"
    using py_round_lower [of "v_price_high v"] py_round_upper [of p] highraw pm by simp
  have sq: "v_price_per_sqft v = p / 1000"
    using L(11) pv by simp
  show ?thesis
    using lo hi by (simp add: predict_def v Let_def sq pv)
qed

text \<open>The scenario on an engine whose model predicts 7500000.\<close>

theorem kharghar_scenario_witness:
  "\<exists>r. predict (example_engine [''Kharghar''] 7500000 [7400000, 7500000])
          ''Kharghar'' 1000 2 2 5 20 5 1 1 = Inr r
       \<and> predicted_price r = py_round 7500000
       \<and> low (price_range r) < predicted_price r
       \<and> predicted_price r < high (price_range r)
       \<and> price_per_sqft r = py_round (7500000 / 1000)"
  using kharghar_scenario
    [of "example_engine [''Kharghar''] 7500000 [7400000, 7500000]"
        "constant_model 7500000 [7400000, 7500000]" zero_fill_scaler zero_encoder 0
        "[0, 1000, 2, 2, 5, 20, 5, 1, 1]" 7500000 "[7400000, 7500000]"]
  by (simp add: example_defs)

text \<open>
  C5 as stated fails on loaded engines that know Kharghar: with a point prediction of 1 the
  lower bound rounds to 1 as well, and with a point prediction of 1499.5 the price per
  square foot is 1 while the returned price 1500, divided by 1000, rounds to 2.
\<close>

theorem kharghar_scenario_counterexample:
  "\<not> isl (predict (example_engine [''Kharghar''] 1 [1]) ''Kharghar'' 1000 2 2 5 20 5 1 1)
   \<and> \<not> low (price_range (projr (predict (example_engine [''Kharghar''] 1 [1])
                 ''Kharghar'' 1000 2 2 5 20 5 1 1)))
        < predicted_price (projr (predict (example_engine [''Kharghar''] 1 [1])
                 ''Kharghar'' 1000 2 2 5 20 5 1 1))
   \<and> \<not> isl (predict (example_engine [''Kharghar''] 1499.5 [1499.5])
                 ''Kharghar'' 1000 2 2 5 20 5 1 1)
   \<and> price_per_sqft (projr (predict (example_engine [''Kharghar''] 1499.5 [1499.5])
                 ''Kharghar'' 1000 2 2 5 20 5 1 1))
       \<noteq> py_round (predicted_price (projr (predict (example_engine [''Kharghar''] 1499.5 [1499.5])
                 ''Kharghar'' 1000 2 2 5 20 5 1 1)) / 1000)"
  by (simp add: predict_def predict_body_def example_defs py_last_def np_std_def np_mean_def
        Let_def py_round_def)

section \<open>Properties of load_model and of the singleton\<close>

text \<open>
  C3 (amended). For a bundle read from an existing file, the outcome of \<open>load_model\<close> is
  the \<open>KeyError\<close> of the first key that is missing among \<open>model\<close>, \<open>scaler\<close>,
  \<open>label_encoder\<close>, \<open>features\<close> and \<open>location_classes\<close>, in this order, and the load
  completes exactly when all five are present. The keys \<open>location_stats\<close>,
  \<open>train_metrics\<close>, \<open>test_metrics\<close> and \<open>feature_importance\<close> are read with a default:
  when one is missing the load still completes and an empty dictionary stands in its place.
\<close>

theorem load_model_keys:
  assumes "fs path = Some (Pickled b)"
  shows "fst (load_model fs settings_model_path (Some path) self) =
           (if b_model b = None then Inl (KeyError ''model'')
            else if b_scaler b = None then Inl (KeyError ''scaler'')
            else if b_label_encoder b = None then Inl (KeyError ''label_encoder'')
            else if b_features b = None then Inl (KeyError ''features'')
            else if b_location_classes b = None then Inl (KeyError ''location_classes'')
            else Inr ())
       \<and> (fst (load_model fs settings_model_path (Some path) self) = Inr ()
           \<longleftrightarrow> b_model b \<noteq> None \<and> b_scaler b \<noteq> None \<and> b_label_encoder b \<noteq> None
               \<and> b_features b \<noteq> None \<and> b_location_classes b \<noteq> None)
       \<and> (fst (load_model fs settings_model_path (Some path) self) = Inr () \<longrightarrow>
            location_stats (snd (load_model fs settings_model_path (Some path) self))
              = get_or_empty (b_location_stats b)
          \<and> model_metrics (snd (load_model fs settings_model_path (Some path) self))
              = [''train'' \<mapsto> get_or_empty (b_train_metrics b),
                 ''test'' \<mapsto> get_or_empty (b_test_metrics b)]
          \<and> feature_importance (snd (load_model fs settings_model_path (Some path) self))
              = get_or_empty (b_feature_importance b))"
  using assms unfolding load_model_def Let_def
  by (auto split: option.splits)

text \<open>The theorem at a bundle with exactly the five keys, which loads, and at a bundle
  with the model only, which raises the \<open>KeyError\<close> of \<open>scaler\<close>.\<close>

theorem load_model_keys_witness:
  "fst (load_model [''m.joblib'' \<mapsto> Pickled five_key_bundle] ''models/house_price_model.joblib''
          (Some ''m.joblib'') init_engine) = Inr ()
   \<and> fst (load_model [''m.joblib'' \<mapsto> Pickled model_only_bundle] ''models/house_price_model.joblib''
          (Some ''m.joblib'') init_engine) = Inl (KeyError ''scaler'')
   \<and> location_stats (snd (load_model [''m.joblib'' \<mapsto> Pickled five_key_bundle]
          ''models/house_price_model.joblib'' (Some ''m.joblib'') init_engine)) = Map.empty"
  using load_model_keys [of "[''m.joblib'' \<mapsto> Pickled five_key_bundle]" "''m.joblib''"
      five_key_bundle "''models/house_price_model.joblib''" init_engine]
    load_model_keys [of "[''m.joblib'' \<mapsto> Pickled model_only_bundle]" "''m.joblib''"
      model_only_bundle "''models/house_price_model.joblib''" init_engine]
  by (simp add: five_key_bundle_def model_only_bundle_def get_or_empty_def)

text \<open>
  C3 as stated fails: a bundle without \<open>location_stats\<close>, \<open>train_metrics\<close>,
  \<open>test_metrics\<close> and \<open>feature_importance\<close> is loaded without an error.
\<close>

theorem optional_keys_counterexample:
  "b_location_stats five_key_bundle = None
   \<and> b_train_metrics five_key_bundle = None
   \<and> b_test_metrics five_key_bundle = None
   \<and> b_feature_importance five_key_bundle = None
   \<and> fst (load_model [''m.joblib'' \<mapsto> Pickled five_key_bundle] ''models/house_price_model.joblib''
          (Some ''m.joblib'') init_engine) = Inr ()
   \<and> is_loaded (snd (load_model [''m.joblib'' \<mapsto> Pickled five_key_bundle]
          ''models/house_price_model.joblib'' (Some ''m.joblib'') init_engine))"
  by (simp add: load_model_def five_key_bundle_def is_loaded_def)

text \<open>
  C2 at a bundle that holds the key \<open>model\<close> and no \<open>scaler\<close>: the load on a fresh
  engine raises \<open>KeyError\<close>, and the engine it leaves behind holds the model, so
  \<open>is_loaded\<close> reports true although the load failed and no scaler is set.
\<close>

theorem failed_load_reports_loaded:
  "\<not> is_loaded init_engine
   \<and> fst (load_model [''m.joblib'' \<mapsto> Pickled model_only_bundle] ''models/house_price_model.joblib''
          (Some ''m.joblib'') init_engine) = Inl (KeyError ''scaler'')
   \<and> is_loaded (snd (load_model [''m.joblib'' \<mapsto> Pickled model_only_bundle]
          ''models/house_price_model.joblib'' (Some ''m.joblib'') init_engine))
   \<and> scaler (snd (load_model [''m.joblib'' \<mapsto> Pickled model_only_bundle]
          ''models/house_price_model.joblib'' (Some ''m.joblib'') init_engine)) = None"
  by (simp add: load_model_def model_only_bundle_def is_loaded_def init_engine_def)

text \<open>
  C10. From a process state whose \<open>_instance\<close>, if set, refers to an allocated object:
  after a first construction has returned the object \<open>a\<close>, every further construction
  returns \<open>a\<close> again and leaves the whole process state as it is, also after a
  \<open>load_model\<close> call on \<open>a\<close> has succeeded; the engine is then still loaded.
\<close>

theorem singleton_preserved:
  assumes wf: "\<forall>b. instance_ref st = Some b \<longrightarrow> b < length (heap st)"
    and first: "PredictionEngine st = (a, st1)"
    and load: "call_load_model fs settings_model_path model_path_arg a st1 = (Inr (), st2)"
  shows "PredictionEngine st1 = (a, st1)
       \<and> PredictionEngine st2 = (a, st2)
       \<and> is_loaded (heap st2 ! a)"
proof -
  have c: "instance_ref st1 = Some a \<and> a < length (heap st1) \<and> initialized (heap st1 ! a)"
    by (rule constructed_initialized [OF first wf])
  then have one: "PredictionEngine st1 = (a, st1)"
    by (simp add: constructed_stable)
  obtain outcome self' where
    lm: "load_model fs settings_model_path model_path_arg (heap st1 ! a) = (outcome, self')"
    by (cases "load_model fs settings_model_path model_path_arg (heap st1 ! a)")
  from load lm have ok: "outcome = Inr ()" and st2: "st2 = st1\<lparr>heap := (heap st1)[a := self']\<rparr>"
    by (simp_all add: call_load_model_def)
  have init': "initialized self'"
    using load_model_initialized [of fs settings_model_path model_path_arg "heap st1 ! a"] lm c
    by simp
  have loaded': "is_loaded self'"
    using load_model_success [of fs settings_model_path model_path_arg "heap st1 ! a"] lm ok
    by simp
  have "instance_ref st2 = Some a" "a < length (heap st2)" "heap st2 ! a = self'"
    using c st2 by simp_all
  then show ?thesis
    using one init' loaded' by (simp add: constructed_stable)
qed

text \<open>The theorem from the fresh process: construct, load a bundle, construct again.\<close>

theorem singleton_preserved_witness:
  "PredictionEngine fresh_process = (0, \<lparr>instance_ref = Some 0, heap = [init_engine]\<rparr>)
   \<and> fst (call_load_model [''m.joblib'' \<mapsto> Pickled five_key_bundle]
            ''models/house_price_model.joblib'' (Some ''m.joblib'') 0
            \<lparr>instance_ref = Some 0, heap = [init_engine]\<rparr>) = Inr ()
   \<and> PredictionEngine (snd (call_load_model [''m.joblib'' \<mapsto> Pickled five_key_bundle]
            ''models/house_price_model.joblib'' (Some ''m.joblib'') 0
            \<lparr>instance_ref = Some 0, heap = [init_engine]\<rparr>))
      = (0, snd (call_load_model [''m.joblib'' \<mapsto> Pickled five_key_bundle]
            ''models/house_price_model.joblib'' (Some ''m.joblib'') 0
            \<lparr>instance_ref = Some 0, heap = [init_engine]\<rparr>))
   \<and> is_loaded (heap (snd (call_load_model [''m.joblib'' \<mapsto> Pickled five_key_bundle]
            ''models/house_price_model.joblib'' (Some ''m.joblib'') 0
            \<lparr>instance_ref = Some 0, heap = [init_engine]\<rparr>)) ! 0)"
proof -
  have wf: "\<forall>b. instance_ref fresh_process = Some b \<longrightarrow> b < length (heap fresh_process)"
    by (simp add: fresh_process_def)
  have first: "PredictionEngine fresh_process = (0, \<lparr>instance_ref = Some 0, heap = [init_engine]\<rparr>)"
    by (simp add: PredictionEngine_def PredictionEngine_new_def PredictionEngine_init_def
          fresh_process_def init_engine_def)
  have ok: "fst (call_load_model [''m.joblib'' \<mapsto> Pickled five_key_bundle]
            ''models/house_price_model.joblib'' (Some ''m.joblib'') 0
            \<lparr>instance_ref = Some 0, heap = [init_engine]\<rparr>) = Inr ()"
    by (simp add: call_load_model_def load_model_def five_key_bundle_def)
  have load: "call_load_model [''m.joblib'' \<mapsto> Pickled five_key_bundle]
            ''models/house_price_model.joblib'' (Some ''m.joblib'') 0
            \<lparr>instance_ref = Some 0, heap = [init_engine]\<rparr>
        = (Inr (), snd (call_load_model [''m.joblib'' \<mapsto> Pickled five_key_bundle]
            ''models/house_price_model.joblib'' (Some ''m.joblib'') 0
            \<lparr>instance_ref = Some 0, heap = [init_engine]\<rparr>))"
    using ok by (metis prod.collapse)
  show ?thesis
    using singleton_preserved [OF wf first load] first ok by simp
qed

section \<open>Properties of the cleaners and of the preprocessing filter\<close>

text \<open>
  C8. For every alias of the table, any text that lower-cases to the alias, with any white
  space before and after it (the no-break space and the next-line control included), is
  normalised to the alias's canonical name; every text whose trimmed, lower-cased form is
  not a key of the table is normalised to \<open>None\<close>, and so are \<open>Mumbai\<close>, the empty
  string and a missing value.
\<close>

theorem normalize_location_aliases:
  "(LOCATION_ALIASES alias = Some canonical \<and> py_lower v = alias
      \<and> list_all is_space pre \<and> list_all is_space post
      \<longrightarrow> normalize_location (Text (pre @ v @ post)) = Inr (Some canonical))
   \<and> (LOCATION_ALIASES (py_lower (py_strip s)) = None
      \<longrightarrow> normalize_location (Text s) = Inr None)
   \<and> normalize_location (Text ''Mumbai'') = Inr None
   \<and> normalize_location (Text []) = Inr None
   \<and> normalize_location Missing = Inr None"
proof -
  have one: "normalize_location (Text (pre @ v @ post)) = Inr (Some canonical)"
    if a: "LOCATION_ALIASES alias = Some canonical" and v: "py_lower v = alias"
      and pre: "list_all is_space pre" and post: "list_all is_space post"
  proof -
    have ends: "v \<noteq> [] \<and> \<not> is_space (hd v) \<and> \<not> is_space (last v)"
      using lower_variant_ends [OF v] alias_keys [OF a] by simp
    then have "py_strip (pre @ v @ post) = v"
      using pre post by (simp add: strip_padded)
    then show ?thesis
      using ends a v by (simp add: normalize_location_def)
  qed
  have two: "normalize_location (Text s) = Inr None"
    if "LOCATION_ALIASES (py_lower (py_strip s)) = None"
    using that by (simp add: normalize_location_def)
  have three: "normalize_location (Text ''Mumbai'') = Inr None"
    by (simp add: normalize_location_def LOCATION_ALIASES_def str_defs)
  have four: "normalize_location (Text []) = Inr None"
    by (simp add: normalize_location_def py_strip_def)
  have five: "normalize_location Missing = Inr None"
    by (simp add: normalize_location_def)
  show ?thesis using one two three four five by blast
qed

text \<open>The theorem at the alias \<open>cbd belapur\<close> written in mixed case between a
  no-break space and a tab in front and a next-line control and a space behind, and at the
  unknown location \<open>Thane\<close>.\<close>

theorem normalize_location_aliases_witness:
  "LOCATION_ALIASES ''cbd belapur'' = Some ''CBD Belapur''
   \<and> py_lower ''Cbd BELAPUR'' = ''cbd belapur''
   \<and> list_all is_space [CHR 0xA0, CHR 0x09] \<and> list_all is_space [CHR 0x85, CHR '' '']
   \<and> normalize_location (Text ([CHR 0xA0, CHR 0x09] @ ''Cbd BELAPUR'' @ [CHR 0x85, CHR '' '']))
        = Inr (Some ''CBD Belapur'')
   \<and> LOCATION_ALIASES (py_lower (py_strip '' Thane '')) = None
   \<and> normalize_location (Text '' Thane '') = Inr None"
proof -
  have h: "LOCATION_ALIASES ''cbd belapur'' = Some ''CBD Belapur''
      \<and> py_lower ''Cbd BELAPUR'' = ''cbd belapur''
      \<and> list_all is_space [CHR 0xA0, CHR 0x09] \<and> list_all is_space [CHR 0x85, CHR '' '']"
    by (simp add: LOCATION_ALIASES_def str_defs)
  have g: "LOCATION_ALIASES (py_lower (py_strip '' Thane '')) = None"
    by (simp add: LOCATION_ALIASES_def str_defs)
  show ?thesis
    using h g
      normalize_location_aliases [of "''cbd belapur''" "''CBD Belapur''" "''Cbd BELAPUR''"
        "[CHR 0xA0, CHR 0x09]" "[CHR 0x85, CHR '' '']" "'' Thane ''"]
    by blast
qed

text \<open>
  C4 at the text \<open>inf\<close>: \<open>float\<close> accepts it, \<open>int\<close> of an infinity raises
  \<open>OverflowError\<close>, and the handler catches \<open>ValueError\<close> only, so \<open>clean_bhk\<close> and
  \<open>clean_floor\<close> raise instead of returning \<open>None\<close>; the same for a decimal that
  overflows to an infinity.
\<close>

theorem clean_bhk_raises_on_inf:
  "clean_bhk (Text ''inf'') = Inl OverflowError
   \<and> clean_floor (Text ''inf'') = Inl OverflowError
   \<and> clean_bhk (Text ''1e999'') = Inl OverflowError"
  by (simp add: clean_bhk_def clean_floor_def except_ValueError_def str_defs float_defs Let_def)

text \<open>
  C7 (amended). On a table that has the price and area columns and whose price and area
  cells are floats, the filter returns, in their order, the rows whose derived price per
  square foot is a number strictly between 2000 and 50000: a row is dropped exactly when
  its value is at most 2000, at least 50000, infinite or \<open>nan\<close>. The derived column is
  neither among the columns nor in any row of the result. For a finite price and a finite
  non-zero area the derived value is the quotient, taken as the exact real quotient.
\<close>

theorem price_per_sqft_filter_open_interval:
  assumes "''actual_price'' \<in> set (columns df)"
    and "''area_sqft'' \<in> set (columns df)"
    and "list_all numeric_row (rows df)"
  shows "\<exists>df'. price_per_sqft_filter df = Inr df'
           \<and> rows df' = map (\<lambda>r. r(''price_per_sqft'' := None))
                 (filter (\<lambda>r. strictly_between 2000 50000 (derived_value r)) (rows df))
           \<and> columns df' = filter (\<lambda>c. c \<noteq> ''price_per_sqft'') (columns df)
           \<and> ''price_per_sqft'' \<notin> set (columns df')
           \<and> list_all (\<lambda>r. r ''price_per_sqft'' = None) (rows df')
           \<and> (\<forall>r. finite_row r \<longrightarrow>
                 derived_value r = Finite (price_per_unit_area r)
               \<and> strictly_between 2000 50000 (derived_value r)
                   = (2000 < price_per_unit_area r \<and> price_per_unit_area r < 50000))"
proof -
  have "assign_quotient ''price_per_sqft'' ''actual_price'' ''area_sqft'' (rows df)
       = Inr (map (\<lambda>r. r(''price_per_sqft'' \<mapsto> Num (derived_value r))) (rows df))"
    using assms(3) by (rule assign_quotient_numeric)
  then show ?thesis
    using assms(1,2)
    by (simp add: price_per_sqft_filter_def filter_assigned_value Let_def list_all_iff comp_def
          derived_value_finite strictly_between_def)
qed

text \<open>The theorem at a table with the values 2000, 7500 and 50000, an infinite price and
  an area of zero: only the row with 7500 stays.\<close>

theorem price_per_sqft_filter_open_interval_witness:
  "''actual_price'' \<in> set (columns mixed_table)
   \<and> ''area_sqft'' \<in> set (columns mixed_table)
   \<and> list_all numeric_row (rows mixed_table)
   \<and> finite_row (listing ''Nerul'' 7500000 1000)
   \<and> derived_value (listing ''Nerul'' 7500000 1000) = Finite 7500
   \<and> price_per_sqft_filter mixed_table =
       Inr \<lparr>columns = [''location'', ''area_sqft'', ''actual_price''],
            rows = [listing ''Nerul'' 7500000 1000]\<rparr>"
proof -
  have h: "''actual_price'' \<in> set (columns mixed_table)"
    "''area_sqft'' \<in> set (columns mixed_table)"
    "list_all numeric_row (rows mixed_table)"
    by (simp_all add: mixed_table_def numeric_row_def listing_def)
  have f: "finite_row (listing ''Nerul'' 7500000 1000)"
    by (simp add: finite_row_def listing_def)
  have l: "(listing ''Nerul'' 7500000 1000)(''price_per_sqft'' := None) = listing ''Nerul'' 7500000 1000"
    by (simp add: listing_def fun_eq_iff)
  from price_per_sqft_filter_open_interval [OF h]
  obtain df' where "price_per_sqft_filter mixed_table = Inr df'"
    and "rows df' = map (\<lambda>r. r(''price_per_sqft'' := None))
                 (filter (\<lambda>r. strictly_between 2000 50000 (derived_value r)) (rows mixed_table))"
    and "columns df' = filter (\<lambda>c. c \<noteq> ''price_per_sqft'') (columns mixed_table)"
    and fin: "\<forall>r. finite_row r \<longrightarrow>
                 derived_value r = Finite (price_per_unit_area r)
               \<and> strictly_between 2000 50000 (derived_value r)
                   = (2000 < price_per_unit_area r \<and> price_per_unit_area r < 50000)"
    by blast
  then have "price_per_sqft_filter mixed_table =
       Inr \<lparr>columns = [''location'', ''area_sqft'', ''actual_price''],
            rows = [listing ''Nerul'' 7500000 1000]\<rparr>"
    using l
    by (cases df')
       (simp add: mixed_table_def derived_value_def strictly_between_def np_divide_def listing_def)
  moreover have "derived_value (listing ''Nerul'' 7500000 1000) = Finite 7500"
    using fin f by (simp add: price_per_unit_area_def listing_def)
  ultimately show ?thesis using h f by simp
qed

text \<open>
  C7 as stated fails: rows whose price per square foot is exactly 2000 or exactly 50000
  are dropped.
\<close>

theorem closed_interval_counterexample:
  "price_per_unit_area (listing ''Vashi'' 2000000 1000) = 2000
   \<and> price_per_unit_area (listing ''Panvel'' 50000000 1000) = 50000
   \<and> price_per_sqft_filter
       \<lparr>columns = [''location'', ''area_sqft'', ''actual_price''],
        rows = [listing ''Vashi'' 2000000 1000, listing ''Panvel'' 50000000 1000]\<rparr>
     = Inr \<lparr>columns = [''location'', ''area_sqft'', ''actual_price''], rows = []\<rparr>"
  by (simp add: price_per_sqft_filter_def price_per_unit_area_def listing_def divide_cells_def
        np_divide_def cell_gt_def cell_lt_def float_gt_def float_lt_def Let_def)

end
